theory Spec2Isabelle
  imports Complex_Main
begin

section \<open>The lunar lander agent of \<^verbatim>\<open>lunar_lander_agent.py\<close>\<close>

text \<open>
  The class \<^verbatim>\<open>LunarLanderAgent\<close> holds a configuration dictionary and offers
  \<^verbatim>\<open>get_action\<close>, which turns an observation of the lander into a command for its
  engines. The observation is a one-dimensional numeric array; its entries are taken as
  real numbers here, and the two contact entries (indices 6 and 7) are numbers as well:
  the source tests them with \<^verbatim>\<open>== False\<close>, which holds exactly for the value 0.
\<close>

subsection \<open>Values, errors, actions\<close>

text \<open>The values a configuration dictionary may hold, with Python's truth value.\<close>

datatype pyval = PyNone | PyBool bool | PyInt int | PyFloat real | PyStr string

fun truthy :: "pyval \<Rightarrow> bool" where
  "truthy PyNone = False"
| "truthy (PyBool b) = b"
| "truthy (PyInt i) = (i \<noteq> 0)"
| "truthy (PyFloat r) = (r \<noteq> 0)"
| "truthy (PyStr s) = (s \<noteq> [])"

type_synonym config = "string \<rightharpoonup> pyval"

text \<open>
  \<open>IndexError\<close>: an index beyond the observation; \<open>KeyError k\<close>: the key \<open>k\<close> is
  not in the dictionary; \<open>ExternalError\<close>: an exception raised inside a function that
  \<^verbatim>\<open>make_env\<close> calls.
\<close>

datatype error = IndexError | KeyError string | ExternalError

text \<open>
  \<^verbatim>\<open>get_action\<close> returns either the array \<^verbatim>\<open>np.array([yBooster, xBooster])\<close> or one
  of the integers 0 to 3.
\<close>

datatype action = Continuous "real list" | Discrete int

subsection \<open>The simulator library, seen from the agent\<close>

text \<open>
  What the program does to the simulator library is recorded as a trace of events, each
  naming the handle of the environment concerned. \<^verbatim>\<open>gym.make\<close> creates an environment
  from a configuration; \<^verbatim>\<open>close\<close>, \<^verbatim>\<open>reset\<close>, \<^verbatim>\<open>step\<close> and \<^verbatim>\<open>render\<close> are the
  methods the source calls on one.
\<close>

datatype event =
    GymMake nat config
  | EnvClose nat
  | EnvReset nat
  | EnvStep nat action
  | EnvRender nat

type_synonym world = "event list"

text \<open>
  Two functions that \<^verbatim>\<open>make_env\<close> calls are not part of the source file: the helper
  \<^verbatim>\<open>tools.env_config_formatter.convert_str_attr_to_float_env_config\<close> and the library
  function \<^verbatim>\<open>gym.make\<close>. They are parameters of the model. The helper returns a
  configuration or raises; \<^verbatim>\<open>gym.make\<close> raises (\<open>Some e\<close>) or returns an environment
  (\<open>None\<close>). The helper's result is bound to a local name in \<^verbatim>\<open>make_env\<close>; the agent's
  own dictionary is taken to be left as it was, the action-space mode being fixed for
  the lifetime of the policy. The last part of the model, on repeated calls, does
  without this assumption.
\<close>

record externals =
  convert_str_attr_to_float_env_config :: "config \<Rightarrow> error + config"
  gym_make_raises :: "config \<Rightarrow> error option"

subsection \<open>The agent\<close>

record agent =
  env_config :: config
  observation_as_rgb :: bool

text \<open>\<^verbatim>\<open>dict.setdefault\<close> stores the value only where the key is absent.\<close>

definition setdefault :: "config \<Rightarrow> string \<Rightarrow> pyval \<Rightarrow> config" where
  "setdefault d k v = (case d k of None \<Rightarrow> d(k \<mapsto> v) | Some _ \<Rightarrow> d)"

definition set_default_env_config :: "config \<Rightarrow> config" where
  "set_default_env_config d =
     setdefault (setdefault d ''render_mode'' PyNone) ''id'' (PyStr ''LunarLander-v2'')"

text \<open>The constructor \<^verbatim>\<open>__init__\<close>.\<close>

definition init_agent :: "config \<Rightarrow> agent" where
  "init_agent d =
     (let c = set_default_env_config d
      in \<lparr>env_config = c,
          observation_as_rgb = (c ''render_mode'' = Some (PyStr ''rgb_array''))\<rparr>)"

text \<open>
  \<^verbatim>\<open>make_env\<close>: the argument defaults to the agent's configuration; the configuration is
  converted and handed to \<^verbatim>\<open>gym.make\<close>. The new environment's handle is the length of
  the trace at its creation.
\<close>

definition make_env :: "externals \<Rightarrow> agent \<Rightarrow> config option \<Rightarrow> world \<Rightarrow> (error + nat) \<times> world" where
  "make_env ext self arg w =
     (let c0 = (case arg of None \<Rightarrow> env_config self | Some c \<Rightarrow> c)
      in case convert_str_attr_to_float_env_config ext c0 of
           Inl e \<Rightarrow> (Inl e, w)
         | Inr c1 \<Rightarrow>
             (case gym_make_raises ext c1 of
                Some e \<Rightarrow> (Inl e, w)
              | None \<Rightarrow> (Inr (length w), w @ [GymMake (length w) c1])))"

definition env_close :: "nat \<Rightarrow> world \<Rightarrow> world" where
  "env_close env w = w @ [EnvClose env]"

subsection \<open>\<^verbatim>\<open>get_action\<close>\<close>

text \<open>\<^verbatim>\<open>observation[i]\<close> for an index \<open>i \<ge> 0\<close>: beyond the end it raises.\<close>

definition item :: "real list \<Rightarrow> nat \<Rightarrow> error + real" where
  "item observation i = (if i < length observation then Inr (observation ! i) else Inl IndexError)"

definition bind_err :: "error + 'a \<Rightarrow> ('a \<Rightarrow> error + 'b) \<Rightarrow> error + 'b" where
  "bind_err r f = (case r of Inl e \<Rightarrow> Inl e | Inr v \<Rightarrow> f v)"

text \<open>
  Line 68, \<^verbatim>\<open>observation[6] == False or observation[7] == False\<close>: the second entry is
  read only when the first comparison is false.
\<close>

definition not_landed :: "real list \<Rightarrow> error + bool" where
  "not_landed observation =
     bind_err (item observation 6) (\<lambda>l.
       if l = 0 then Inr True
       else bind_err (item observation 7) (\<lambda>r. Inr (r = 0)))"

text \<open>
  Lines 62 to 76: the pair \<^verbatim>\<open>[yBooster, xBooster]\<close> that line 82 puts into the array
  \<^verbatim>\<open>action\<close>.
\<close>

definition raw_command :: "real list \<Rightarrow> error + real list" where
  "raw_command observation =
     bind_err (item observation 0) (\<lambda>x.
     bind_err (item observation 1) (\<lambda>y.
     bind_err (item observation 2) (\<lambda>xv.
     bind_err (item observation 3) (\<lambda>yv.
     bind_err (item observation 4) (\<lambda>theta.
     bind_err (item observation 5) (\<lambda>omega.
     bind_err (not_landed observation) (\<lambda>flying.
       let yBooster = (if flying then
                         (if yv < 0 then \<bar>yv\<bar> - (if y > 0.10 then y / 7 else - 0.10) else 0)
                       else 0);
           xBooster = sin theta * 2.5 + omega * 2.5;
           xBooster = xBooster - (x * 3 + xv * 4)
       in Inr [yBooster, xBooster])))))))"

text \<open>Lines 87 to 98: the integer returned when the action space is discrete.\<close>

definition discrete_action :: "real list \<Rightarrow> real \<Rightarrow> real \<Rightarrow> int" where
  "discrete_action action y yv =
     (if action ! 0 > \<bar>action ! 1\<bar> then 2
      else if y < 0.05 then (if yv < - 0.1 then 2 else 0)
      else if action ! 1 < - 0.5 then 1
      else if action ! 1 > 0.5 then 3
      else if yv > - 0.08 \<and> y > 0.15 then 0
      else (if yv < - 0.1 then 2 else 0))"

text \<open>
  The whole method. After the raw command it creates an environment and closes it
  (lines 79 and 80), then reads \<^verbatim>\<open>self.env_config['continuous']\<close> and branches on its
  truth value.
\<close>

definition get_action :: "externals \<Rightarrow> agent \<Rightarrow> real list \<Rightarrow> world \<Rightarrow> (error + action) \<times> world" where
  "get_action ext self observation w =
     (case raw_command observation of
        Inl e \<Rightarrow> (Inl e, w)
      | Inr action \<Rightarrow>
          (case make_env ext self None w of
             (Inl e, w1) \<Rightarrow> (Inl e, w1)
           | (Inr env, w1) \<Rightarrow>
               (let w2 = env_close env w1
                in case env_config self ''continuous'' of
                     None \<Rightarrow> (Inl (KeyError ''continuous''), w2)
                   | Some c \<Rightarrow>
                       if truthy c then (Inr (Continuous action), w2)
                       else (Inr (Discrete (discrete_action action (observation ! 1) (observation ! 3))), w2))))"

text \<open>
  An instance of the two external functions for running the model: a configuration
  without numeric strings comes back from the helper as it is, and \<^verbatim>\<open>gym.make\<close>
  returns.
\<close>

definition plain_externals :: externals where
  "plain_externals = \<lparr>convert_str_attr_to_float_env_config = Inr, gym_make_raises = (\<lambda>_. None)\<rparr>"

subsection \<open>Example inputs\<close>

text \<open>
  Two agents built by the constructor, one for each action space, and one whose
  \<^verbatim>\<open>continuous\<close> entry is the integer 7.
\<close>

definition discrete_agent :: agent where
  "discrete_agent = init_agent [''continuous'' \<mapsto> PyBool False]"

definition continuous_agent :: agent where
  "continuous_agent = init_agent [''continuous'' \<mapsto> PyBool True]"

definition seven_agent :: agent where
  "seven_agent = init_agent [''continuous'' \<mapsto> PyInt 7]"

text \<open>
  An instance of the externals in which \<^verbatim>\<open>gym.make\<close> knows the one environment
  \<^verbatim>\<open>LunarLander-v2\<close> and raises for every other \<^verbatim>\<open>id\<close>, as the library does for an
  id that is not registered; and an agent constructed with such an id.
\<close>

definition known_id_externals :: externals where
  "known_id_externals =
     \<lparr>convert_str_attr_to_float_env_config = Inr,
      gym_make_raises = (\<lambda>c. if c ''id'' = Some (PyStr ''LunarLander-v2'') then None
                              else Some ExternalError)\<rparr>"

definition unknown_id_agent :: agent where
  "unknown_id_agent = init_agent [''id'' \<mapsto> PyStr ''NoSuchEnv-v0'', ''continuous'' \<mapsto> PyBool False]"

subsection \<open>Repeated calls: the helper and the agent's dictionary\<close>

text \<open>
  Modelled from the spec: \<^verbatim>\<open>convert_str_attr_to_float_env_config\<close> of
  \<^verbatim>\<open>tools.env_config_formatter\<close> is not in the source file. The spec describes it as
  an implicit, silent coercion of the string-valued fields of the configuration to
  floats. A field holding a string that Python's \<^verbatim>\<open>float\<close> accepts becomes that
  float; every other field, \<^verbatim>\<open>id\<close> among them, stays as it is. \<open>py_float\<close>, the
  conversion of a string by \<^verbatim>\<open>float\<close>, is a parameter.
\<close>

definition convert_str_attr_to_float :: "(string \<Rightarrow> real option) \<Rightarrow> config \<Rightarrow> config" where
  "convert_str_attr_to_float py_float d =
     (\<lambda>k. case d k of
            Some (PyStr t) \<Rightarrow> (case py_float t of Some r \<Rightarrow> Some (PyFloat r) | None \<Rightarrow> Some (PyStr t))
          | v \<Rightarrow> v)"

text \<open>
  Called without an argument, \<^verbatim>\<open>make_env\<close> hands \<^verbatim>\<open>self.env_config\<close> itself to the
  helper (lines 46 to 48): the dictionary that line 83 reads afterwards. Whether the
  helper writes the floats into the dictionary it is given or into a copy is not known;
  \<open>in_place\<close> covers both. \<^verbatim>\<open>gym.make\<close> receives the fields as keyword arguments
  and is a function of them. Here the two methods also return the agent as the call
  leaves it.
\<close>

definition make_env_ref ::
  "(string \<Rightarrow> real option) \<Rightarrow> bool \<Rightarrow> (config \<Rightarrow> error option) \<Rightarrow>
   agent \<Rightarrow> config option \<Rightarrow> world \<Rightarrow> (error + nat) \<times> agent \<times> world" where
  "make_env_ref py_float in_place gym_raises self arg w =
     (let c0 = (case arg of None \<Rightarrow> env_config self | Some c \<Rightarrow> c);
          c1 = convert_str_attr_to_float py_float c0;
          self1 = (if in_place \<and> arg = None then self\<lparr>env_config := c1\<rparr> else self)
      in case gym_raises c1 of
           Some e \<Rightarrow> (Inl e, self1, w)
         | None \<Rightarrow> (Inr (length w), self1, w @ [GymMake (length w) c1]))"

definition get_action_ref ::
  "(string \<Rightarrow> real option) \<Rightarrow> bool \<Rightarrow> (config \<Rightarrow> error option) \<Rightarrow>
   agent \<Rightarrow> real list \<Rightarrow> world \<Rightarrow> (error + action) \<times> agent \<times> world" where
  "get_action_ref py_float in_place gym_raises self observation w =
     (case raw_command observation of
        Inl e \<Rightarrow> (Inl e, self, w)
      | Inr action \<Rightarrow>
          (case make_env_ref py_float in_place gym_raises self None w of
             (Inl e, self1, w1) \<Rightarrow> (Inl e, self1, w1)
           | (Inr env, self1, w1) \<Rightarrow>
               (let w2 = env_close env w1
                in case env_config self1 ''continuous'' of
                     None \<Rightarrow> (Inl (KeyError ''continuous''), self1, w2)
                   | Some c \<Rightarrow>
                       if truthy c then (Inr (Continuous action), self1, w2)
                       else (Inr (Discrete (discrete_action action (observation ! 1) (observation ! 3))),
                             self1, w2))))"

section \<open>Properties\<close>

subsection \<open>Reading the observation\<close>

lemma item_in_range: "i < length s \<Longrightarrow> item s i = Inr (s ! i)"
  by (simp add: item_def)

lemma bind_err_Inr: "bind_err (Inr v) f = f v"
  by (simp add: bind_err_def)

lemma not_landed_8:
  "length s = 8 \<Longrightarrow> not_landed s = Inr (s ! 6 = 0 \<or> s ! 7 = 0)"
  by (simp add: not_landed_def item_in_range bind_err_Inr)

text \<open>On an observation of eight entries no index is out of range.\<close>

lemma raw_command_8:
  assumes "length s = 8"
  shows "raw_command s =
           Inr [if (s ! 6 = 0 \<or> s ! 7 = 0) \<and> s ! 3 < 0
                then \<bar>s ! 3\<bar> - (if s ! 1 > 0.10 then s ! 1 / 7 else - 0.10) else 0,
                sin (s ! 4) * 2.5 + s ! 5 * 2.5 - (s ! 0 * 3 + s ! 2 * 4)]"
  using assms
  by (simp add: raw_command_def not_landed_8 item_in_range bind_err_Inr Let_def)

subsection \<open>The call as a whole\<close>

lemma make_env_returns:
  assumes "convert_str_attr_to_float_env_config ext (env_config self) = Inr c1"
    and "gym_make_raises ext c1 = None"
  shows "make_env ext self None w = (Inr (length w), w @ [GymMake (length w) c1])"
  using assms by (simp add: make_env_def)

text \<open>
  Once the raw command is computed and \<^verbatim>\<open>make_env\<close> returns, the result is decided by
  the \<^verbatim>\<open>continuous\<close> entry alone, and the trace has grown by two events.
\<close>

lemma get_action_returns:
  assumes "raw_command s = Inr a"
    and "convert_str_attr_to_float_env_config ext (env_config self) = Inr c1"
    and "gym_make_raises ext c1 = None"
  shows "get_action ext self s w =
           ((case env_config self ''continuous'' of
               None \<Rightarrow> Inl (KeyError ''continuous'')
             | Some m \<Rightarrow> Inr (if truthy m then Continuous a
                              else Discrete (discrete_action a (s ! 1) (s ! 3)))),
            w @ [GymMake (length w) c1, EnvClose (length w)])"
  using assms
  by (simp add: get_action_def make_env_returns env_close_def split: option.splits)

text \<open>When the helper or \<^verbatim>\<open>gym.make\<close> raises, so does the call, and the trace is as before.\<close>

lemma get_action_make_env_raises:
  assumes "raw_command s = Inr a"
    and "convert_str_attr_to_float_env_config ext (env_config self) = Inr c1"
    and "gym_make_raises ext c1 = Some e"
  shows "get_action ext self s w = (Inl e, w)"
  using assms by (simp add: get_action_def make_env_def)

lemma get_action_convert_raises:
  assumes "raw_command s = Inr a"
    and "convert_str_attr_to_float_env_config ext (env_config self) = Inl e"
  shows "get_action ext self s w = (Inl e, w)"
  using assms by (simp add: get_action_def make_env_def)

lemma discrete_action_range: "discrete_action a y yv \<in> {0, 1, 2, 3}"
  by (simp add: discrete_action_def)

text \<open>Conversely, a call that returns an action has passed every step that may raise.\<close>

lemma get_action_Inr:
  assumes "fst (get_action ext self s w) = Inr act"
  shows "\<exists>a m c1. raw_command s = Inr a
           \<and> env_config self ''continuous'' = Some m
           \<and> convert_str_attr_to_float_env_config ext (env_config self) = Inr c1
           \<and> gym_make_raises ext c1 = None
           \<and> act = (if truthy m then Continuous a
                    else Discrete (discrete_action a (s ! 1) (s ! 3)))"
  using assms
  by (auto simp: get_action_def make_env_def Let_def split: sum.splits option.splits if_splits)

text \<open>The trace is written, never read: the result is the same for every trace.\<close>

lemma fst_get_action_world: "fst (get_action ext self s w) = fst (get_action ext self s w')"
  by (simp add: get_action_def make_env_def Let_def split: sum.splits option.splits)

text \<open>The example agents' configurations and the example externals.\<close>

lemma discrete_agent_mode: "env_config discrete_agent ''continuous'' = Some (PyBool False)"
  by (simp add: discrete_agent_def init_agent_def set_default_env_config_def setdefault_def)

lemma continuous_agent_mode: "env_config continuous_agent ''continuous'' = Some (PyBool True)"
  by (simp add: continuous_agent_def init_agent_def set_default_env_config_def setdefault_def)

lemma seven_agent_mode: "env_config seven_agent ''continuous'' = Some (PyInt 7)"
  by (simp add: seven_agent_def init_agent_def set_default_env_config_def setdefault_def)

lemma missing_agent_mode: "env_config (init_agent Map.empty) ''continuous'' = None"
  by (simp add: init_agent_def set_default_env_config_def setdefault_def)

lemma unknown_id_agent_mode: "env_config unknown_id_agent ''continuous'' = Some (PyBool False)"
  by (simp add: unknown_id_agent_def init_agent_def set_default_env_config_def setdefault_def)

lemma unknown_id_agent_id: "env_config unknown_id_agent ''id'' = Some (PyStr ''NoSuchEnv-v0'')"
  by (simp add: unknown_id_agent_def init_agent_def set_default_env_config_def setdefault_def)

lemma plain_convert: "convert_str_attr_to_float_env_config plain_externals c = Inr c"
  by (simp add: plain_externals_def)

lemma plain_gym_make: "gym_make_raises plain_externals c = None"
  by (simp add: plain_externals_def)

subsection \<open>The raw command\<close>

text \<open>
  Claim C1. For every observation of eight entries, the first component \<^verbatim>\<open>yBooster\<close> of
  the raw command is \<open>\<bar>yv\<bar> - (if y > 0.10 then y / 7 else - 0.10)\<close> when at least one
  contact entry is false (equal to 0) and \<open>yv < 0\<close>, and it is 0 otherwise, that is when
  both legs are in contact or \<open>yv \<ge> 0\<close>. The raw command does not depend on the action
  space: in continuous mode it is what \<^verbatim>\<open>get_action\<close> returns, in discrete mode it is
  what the integer is computed from. The last two hypotheses say that \<^verbatim>\<open>make_env\<close>
  returns.
\<close>

theorem yBooster_formula:
  assumes "length s = 8"
    and "env_config self ''continuous'' = Some m"
    and "convert_str_attr_to_float_env_config ext (env_config self) = Inr c1"
    and "gym_make_raises ext c1 = None"
  shows "\<exists>a. raw_command s = Inr a
           \<and> a ! 0 = (if (s ! 6 = 0 \<or> s ! 7 = 0) \<and> s ! 3 < 0
                      then \<bar>s ! 3\<bar> - (if s ! 1 > 0.10 then s ! 1 / 7 else - 0.10)
                      else 0)
           \<and> fst (get_action ext self s w) =
               Inr (if truthy m then Continuous a
                    else Discrete (discrete_action a (s ! 1) (s ! 3)))"
proof -
  from raw_command_8 [OF assms(1)] obtain a where
    a: "raw_command s = Inr a"
    and y: "a ! 0 = (if (s ! 6 = 0 \<or> s ! 7 = 0) \<and> s ! 3 < 0
                     then \<bar>s ! 3\<bar> - (if s ! 1 > 0.10 then s ! 1 / 7 else - 0.10)
                     else 0)"
    by simp
  from get_action_returns [OF a assms(3) assms(4)] assms(2)
  have "fst (get_action ext self s w) =
          Inr (if truthy m then Continuous a else Discrete (discrete_action a (s ! 1) (s ! 3)))"
    by simp
  with a y show ?thesis by blast
qed

theorem yBooster_formula_witness:
  "length [0, 0.5, 0, - 1, 0, 0, 0, 0 :: real] = 8
   \<and> env_config discrete_agent ''continuous'' = Some (PyBool False)
   \<and> convert_str_attr_to_float_env_config plain_externals (env_config discrete_agent)
       = Inr (env_config discrete_agent)
   \<and> gym_make_raises plain_externals (env_config discrete_agent) = None
   \<and> (\<exists>a. raw_command [0, 0.5, 0, - 1, 0, 0, 0, 0] = Inr a
         \<and> a ! 0 = 13 / 14
         \<and> fst (get_action plain_externals discrete_agent [0, 0.5, 0, - 1, 0, 0, 0, 0] []) =
             Inr (Discrete (discrete_action a 0.5 (- 1))))"
proof -
  have l: "length [0, 0.5, 0, - 1, 0, 0, 0, 0 :: real] = 8" by simp
  from yBooster_formula [OF l discrete_agent_mode plain_convert plain_gym_make, of "[]"]
  show ?thesis using l discrete_agent_mode plain_convert plain_gym_make by simp
qed

text \<open>
  Claim C2. For every observation of eight entries, the second component \<^verbatim>\<open>xBooster\<close>
  of the raw command is \<open>sin theta * 2.5 + omega * 2.5 - (x * 3 + xv * 4)\<close>, whatever
  the contact entries are, in both action spaces.
\<close>

theorem xBooster_formula:
  assumes "length s = 8"
    and "env_config self ''continuous'' = Some m"
    and "convert_str_attr_to_float_env_config ext (env_config self) = Inr c1"
    and "gym_make_raises ext c1 = None"
  shows "\<exists>a. raw_command s = Inr a
           \<and> a ! 1 = sin (s ! 4) * 2.5 + s ! 5 * 2.5 - (s ! 0 * 3 + s ! 2 * 4)
           \<and> fst (get_action ext self s w) =
               Inr (if truthy m then Continuous a
                    else Discrete (discrete_action a (s ! 1) (s ! 3)))"
proof -
  from raw_command_8 [OF assms(1)] obtain a where
    a: "raw_command s = Inr a"
    and x: "a ! 1 = sin (s ! 4) * 2.5 + s ! 5 * 2.5 - (s ! 0 * 3 + s ! 2 * 4)"
    by simp
  from get_action_returns [OF a assms(3) assms(4)] assms(2)
  have "fst (get_action ext self s w) =
          Inr (if truthy m then Continuous a else Discrete (discrete_action a (s ! 1) (s ! 3)))"
    by simp
  with a x show ?thesis by blast
qed

theorem xBooster_formula_witness:
  "length [1, 0.5, 2, - 1, 0, 3, 1, 1 :: real] = 8
   \<and> env_config continuous_agent ''continuous'' = Some (PyBool True)
   \<and> convert_str_attr_to_float_env_config plain_externals (env_config continuous_agent)
       = Inr (env_config continuous_agent)
   \<and> gym_make_raises plain_externals (env_config continuous_agent) = None
   \<and> (\<exists>a. raw_command [1, 0.5, 2, - 1, 0, 3, 1, 1] = Inr a
         \<and> a ! 1 = - 7 / 2
         \<and> fst (get_action plain_externals continuous_agent [1, 0.5, 2, - 1, 0, 3, 1, 1] []) =
             Inr (Continuous a))"
proof -
  have l: "length [1, 0.5, 2, - 1, 0, 3, 1, 1 :: real] = 8" by simp
  from xBooster_formula [OF l continuous_agent_mode plain_convert plain_gym_make, of "[]"]
  show ?thesis using l continuous_agent_mode plain_convert plain_gym_make by simp
qed

subsection \<open>The discrete action\<close>

text \<open>
  Claim C3. In discrete mode, whenever the raw command has \<open>yBooster > \<bar>xBooster\<bar>\<close>
  the action is 2 (fire the main engine), whatever \<open>y\<close>, \<open>yv\<close> and the contact entries
  are; this test comes before the one for \<open>y < 0.05\<close>. At the input of the witness
  the lander is below 0.05 and sinks slower than 0.1, where the near-ground rule alone
  would answer 0.
\<close>

theorem main_engine_first:
  assumes "raw_command s = Inr a"
    and "env_config self ''continuous'' = Some m"
    and "\<not> truthy m"
    and "convert_str_attr_to_float_env_config ext (env_config self) = Inr c1"
    and "gym_make_raises ext c1 = None"
    and "a ! 0 > \<bar>a ! 1\<bar>"
  shows "fst (get_action ext self s w) = Inr (Discrete 2)"
  using get_action_returns [OF assms(1) assms(4) assms(5), of w] assms(2) assms(3) assms(6)
  by (simp add: discrete_action_def)

theorem main_engine_first_witness:
  "raw_command [0, 0.03, 0, - 0.05, 0, 0, 0, 0] = Inr [0.15, 0]
   \<and> env_config discrete_agent ''continuous'' = Some (PyBool False)
   \<and> \<not> truthy (PyBool False)
   \<and> convert_str_attr_to_float_env_config plain_externals (env_config discrete_agent)
       = Inr (env_config discrete_agent)
   \<and> gym_make_raises plain_externals (env_config discrete_agent) = None
   \<and> [0.15, 0 :: real] ! 0 > \<bar>[0.15, 0] ! 1\<bar>
   \<and> (0.03 :: real) < 0.05 \<and> \<not> (- 0.05 :: real) < - 0.1
   \<and> fst (get_action plain_externals discrete_agent [0, 0.03, 0, - 0.05, 0, 0, 0, 0] [])
       = Inr (Discrete 2)"
proof -
  have r: "raw_command [0, 0.03, 0, - 0.05, 0, 0, 0, 0] = Inr [0.15, 0]"
    by (simp add: raw_command_8)
  have t: "\<not> truthy (PyBool False)" by simp
  have d: "[0.15, 0 :: real] ! 0 > \<bar>[0.15, 0] ! 1\<bar>" by simp
  from main_engine_first [OF r discrete_agent_mode t plain_convert plain_gym_make d, of "[]"]
  show ?thesis using r discrete_agent_mode plain_convert plain_gym_make by simp
qed

text \<open>
  Claim C4. In discrete mode, when \<open>yBooster \<le> \<bar>xBooster\<bar>\<close>: below \<open>y = 0.05\<close> the
  action is 2 if \<open>yv < - 0.1\<close> and 0 otherwise; from \<open>y = 0.05\<close> upwards it is 1 if
  \<open>xBooster < - 0.5\<close>, 3 if \<open>xBooster > 0.5\<close>, and otherwise 0 if \<open>yv > - 0.08\<close> and
  \<open>y > 0.15\<close>, else 2 if \<open>yv < - 0.1\<close> and 0 otherwise.
\<close>

theorem discrete_rules:
  assumes "raw_command s = Inr a"
    and "env_config self ''continuous'' = Some m"
    and "\<not> truthy m"
    and "convert_str_attr_to_float_env_config ext (env_config self) = Inr c1"
    and "gym_make_raises ext c1 = None"
    and "a ! 0 \<le> \<bar>a ! 1\<bar>"
  shows "fst (get_action ext self s w) =
           Inr (Discrete
             (if s ! 1 < 0.05 then (if s ! 3 < - 0.1 then 2 else 0)
              else if a ! 1 < - 0.5 then 1
              else if a ! 1 > 0.5 then 3
              else if s ! 3 > - 0.08 \<and> s ! 1 > 0.15 then 0
              else if s ! 3 < - 0.1 then 2 else 0))"
  using get_action_returns [OF assms(1) assms(4) assms(5), of w] assms(2) assms(3) assms(6)
  by (simp add: discrete_action_def)

theorem discrete_rules_witness:
  "raw_command [0.2, 0.5, 0, - 0.05, 0, 0, 0, 0] = Inr [- 3 / 140, - 0.6]
   \<and> env_config discrete_agent ''continuous'' = Some (PyBool False)
   \<and> \<not> truthy (PyBool False)
   \<and> convert_str_attr_to_float_env_config plain_externals (env_config discrete_agent)
       = Inr (env_config discrete_agent)
   \<and> gym_make_raises plain_externals (env_config discrete_agent) = None
   \<and> [- 3 / 140, - 0.6 :: real] ! 0 \<le> \<bar>[- 3 / 140, - 0.6] ! 1\<bar>
   \<and> fst (get_action plain_externals discrete_agent [0.2, 0.5, 0, - 0.05, 0, 0, 0, 0] [])
       = Inr (Discrete 1)"
proof -
  have r: "raw_command [0.2, 0.5, 0, - 0.05, 0, 0, 0, 0] = Inr [- 3 / 140, - 0.6]"
    by (simp add: raw_command_8)
  have t: "\<not> truthy (PyBool False)" by simp
  have d: "[- 3 / 140, - 0.6 :: real] ! 0 \<le> \<bar>[- 3 / 140, - 0.6] ! 1\<bar>" by simp
  from discrete_rules [OF r discrete_agent_mode t plain_convert plain_gym_make d, of "[]"]
  show ?thesis using r discrete_agent_mode plain_convert plain_gym_make by simp
qed

subsection \<open>Effects\<close>

text \<open>
  Claim C5 reads: the decision operation has no side effects; no call touches an
  external resource, and none allocates or queries a simulator. Lines 79 and 80 say
  otherwise: started on the empty trace, a call of \<^verbatim>\<open>get_action\<close> leaves a trace of
  two events, an environment created from the agent's configuration and closed again.
\<close>

theorem get_action_makes_env_counterexample:
  "snd (get_action plain_externals discrete_agent [0, 1, 0, 0, 0, 0, 0, 0] [])
     = [GymMake 0 (env_config discrete_agent), EnvClose 0]
   \<and> snd (get_action plain_externals discrete_agent [0, 1, 0, 0, 0, 0, 0, 0] []) \<noteq> []"
proof -
  have r: "raw_command [0, 1, 0, 0, 0, 0, 0, 0] = Inr [0, 0]"
    by (simp add: raw_command_8)
  show ?thesis
    using get_action_returns [OF r plain_convert plain_gym_make, of discrete_agent "[]"]
    by simp
qed

text \<open>
  Claim C5, as the code has it. Every call that returns an action has created exactly
  one environment, from the converted configuration of the agent, and has closed that
  same environment; nothing else is done to the simulator library (no reset, no step,
  no render), and the action returned is the same whatever the state of the library.
\<close>

theorem get_action_trace:
  assumes "fst (get_action ext self s w) = Inr act"
  shows "(\<exists>c1. convert_str_attr_to_float_env_config ext (env_config self) = Inr c1
            \<and> snd (get_action ext self s w)
                = w @ [GymMake (length w) c1, EnvClose (length w)])
         \<and> fst (get_action ext self s w') = Inr act"
proof -
  from get_action_Inr [OF assms] obtain a m c1 where
    a: "raw_command s = Inr a"
    and "env_config self ''continuous'' = Some m"
    and c: "convert_str_attr_to_float_env_config ext (env_config self) = Inr c1"
    and g: "gym_make_raises ext c1 = None"
    by blast
  from get_action_returns [OF a c g, of w]
  have "snd (get_action ext self s w) = w @ [GymMake (length w) c1, EnvClose (length w)]"
    by simp
  moreover from assms have "fst (get_action ext self s w') = Inr act"
    by (simp add: fst_get_action_world [of ext self s w' w])
  ultimately show ?thesis using c by blast
qed

theorem get_action_trace_witness:
  "fst (get_action plain_externals discrete_agent [0, 0.03, 0, - 0.2, 0, 0, 0, 0] [])
     = Inr (Discrete 2)
   \<and> (\<exists>c1. convert_str_attr_to_float_env_config plain_externals (env_config discrete_agent) = Inr c1
          \<and> snd (get_action plain_externals discrete_agent [0, 0.03, 0, - 0.2, 0, 0, 0, 0] [])
              = [] @ [GymMake (length ([] :: world)) c1, EnvClose (length ([] :: world))])
   \<and> fst (get_action plain_externals discrete_agent [0, 0.03, 0, - 0.2, 0, 0, 0, 0]
            [EnvReset 5]) = Inr (Discrete 2)"
proof -
  have r: "raw_command [0, 0.03, 0, - 0.2, 0, 0, 0, 0] = Inr [0.3, 0]"
    by (simp add: raw_command_8)
  have h: "fst (get_action plain_externals discrete_agent [0, 0.03, 0, - 0.2, 0, 0, 0, 0] [])
             = Inr (Discrete 2)"
    using get_action_returns [OF r plain_convert plain_gym_make, of discrete_agent "[]"]
    by (simp add: discrete_agent_mode discrete_action_def)
  from get_action_trace [OF h, of "[EnvReset 5]"] h show ?thesis by blast
qed

subsection \<open>The action-space mode\<close>

text \<open>
  Claim C6 reads: the mode is validated against the two values continuous and discrete,
  and any other or a missing one is rejected with an invalid-configuration error, never
  treated as one of the two. In the source, line 83 tests the truth value of
  \<^verbatim>\<open>self.env_config['continuous']\<close> and nothing else: with the integer 7 as the entry,
  neither \<^verbatim>\<open>True\<close> nor \<^verbatim>\<open>False\<close>, the call returns the continuous action.
\<close>

theorem mode_not_validated_counterexample:
  "PyInt 7 \<noteq> PyBool True \<and> PyInt 7 \<noteq> PyBool False
   \<and> env_config seven_agent ''continuous'' = Some (PyInt 7)
   \<and> fst (get_action plain_externals seven_agent [0, 0.5, 0, - 1, 0, 0, 0, 0] [])
       = Inr (Continuous [13 / 14, 0])"
proof -
  have r: "raw_command [0, 0.5, 0, - 1, 0, 0, 0, 0] = Inr [13 / 14, 0]"
    by (simp add: raw_command_8)
  show ?thesis
    using get_action_returns [OF r plain_convert plain_gym_make, of seven_agent "[]"]
    by (simp add: seven_agent_mode)
qed

text \<open>
  Claim C6, as the code has it. There is no validation of the mode. Once the raw
  command is computed, the call creates the environment of lines 79 and 80 and closes
  it, and only then looks the \<^verbatim>\<open>continuous\<close> entry up: a missing entry raises
  \<open>KeyError\<close>, with the two events already in the trace, and an entry of any value
  selects the continuous action when it is truthy and the discrete action when it is
  falsy.
\<close>

theorem mode_by_truth_value:
  assumes "raw_command s = Inr a"
    and "convert_str_attr_to_float_env_config ext (env_config self) = Inr c1"
    and "gym_make_raises ext c1 = None"
  shows "get_action ext self s w =
           ((case env_config self ''continuous'' of
               None \<Rightarrow> Inl (KeyError ''continuous'')
             | Some m \<Rightarrow> Inr (if truthy m then Continuous a
                              else Discrete (discrete_action a (s ! 1) (s ! 3)))),
            w @ [GymMake (length w) c1, EnvClose (length w)])"
proof -
  from assms(2) assms(3)
  have made: "make_env ext self None w = (Inr (length w), w @ [GymMake (length w) c1])"
    by (rule make_env_returns)
  have closed: "env_close (length w) (w @ [GymMake (length w) c1])
                  = w @ [GymMake (length w) c1, EnvClose (length w)]"
    by (simp add: env_close_def)
  show ?thesis
    unfolding get_action_def
    by (simp add: assms(1) made closed split: option.splits)
qed

theorem mode_by_truth_value_witness:
  "raw_command [0, 0.5, 0, - 1, 0, 0, 0, 0] = Inr [13 / 14, 0]
   \<and> convert_str_attr_to_float_env_config plain_externals (env_config (init_agent Map.empty))
       = Inr (env_config (init_agent Map.empty))
   \<and> gym_make_raises plain_externals (env_config (init_agent Map.empty)) = None
   \<and> get_action plain_externals (init_agent Map.empty) [0, 0.5, 0, - 1, 0, 0, 0, 0] []
       = (Inl (KeyError ''continuous''),
          [GymMake 0 (env_config (init_agent Map.empty)), EnvClose 0])"
proof -
  have r: "raw_command [0, 0.5, 0, - 1, 0, 0, 0, 0] = Inr [13 / 14, 0]"
    by (simp add: raw_command_8)
  from mode_by_truth_value [OF r plain_convert plain_gym_make, of "init_agent Map.empty" "[]"]
  show ?thesis using r plain_convert plain_gym_make by (simp add: missing_agent_mode)
qed

subsection \<open>Totality\<close>

text \<open>
  Claim C7 reads: for every observation of eight entries \<^verbatim>\<open>get_action\<close> returns a
  well-formed action, the unclamped pair in continuous mode and an integer among 0, 1,
  2, 3 in discrete mode, and no error condition is reachable. Line 79 creates an
  environment on every call, and the call raises when that raises: an agent in
  discrete mode whose \<^verbatim>\<open>id\<close> the simulator library does not know gets an error for
  an observation of eight entries.
\<close>

theorem get_action_raises_counterexample:
  "length [0, 1, 0, 0, 0, 0, 0, 0 :: real] = 8
   \<and> env_config unknown_id_agent ''continuous'' = Some (PyBool False)
   \<and> fst (get_action known_id_externals unknown_id_agent [0, 1, 0, 0, 0, 0, 0, 0] [])
       = Inl ExternalError"
proof -
  have r: "raw_command [0, 1, 0, 0, 0, 0, 0, 0] = Inr [0, 0]"
    by (simp add: raw_command_8)
  have c: "convert_str_attr_to_float_env_config known_id_externals (env_config unknown_id_agent)
             = Inr (env_config unknown_id_agent)"
    by (simp add: known_id_externals_def)
  have g: "gym_make_raises known_id_externals (env_config unknown_id_agent) = Some ExternalError"
    by (simp add: known_id_externals_def unknown_id_agent_id)
  show ?thesis
    using get_action_make_env_raises [OF r c g, of "[]"] unknown_id_agent_mode by simp
qed

text \<open>
  Claim C7, as the code has it. For every observation of eight entries the outcome of
  \<^verbatim>\<open>get_action\<close> is this: the error of the helper or of \<^verbatim>\<open>gym.make\<close> when the
  creation of the environment raises; else \<open>KeyError\<close> when the configuration has no
  \<^verbatim>\<open>continuous\<close> entry; else an action, which is the pair \<open>[yBooster, xBooster]\<close> as
  computed, not clamped, in continuous mode and an integer among 0, 1, 2, 3 in discrete
  mode. No other error arises.
\<close>

theorem get_action_outcome:
  assumes "length s = 8"
  shows "fst (get_action ext self s w) =
           (case convert_str_attr_to_float_env_config ext (env_config self) of
              Inl e \<Rightarrow> Inl e
            | Inr c1 \<Rightarrow>
                (case gym_make_raises ext c1 of
                   Some e \<Rightarrow> Inl e
                 | None \<Rightarrow>
                     (case env_config self ''continuous'' of
                        None \<Rightarrow> Inl (KeyError ''continuous'')
                      | Some m \<Rightarrow>
                          Inr (if truthy m
                               then Continuous
                                 [if (s ! 6 = 0 \<or> s ! 7 = 0) \<and> s ! 3 < 0
                                  then \<bar>s ! 3\<bar> - (if s ! 1 > 0.10 then s ! 1 / 7 else - 0.10)
                                  else 0,
                                  sin (s ! 4) * 2.5 + s ! 5 * 2.5 - (s ! 0 * 3 + s ! 2 * 4)]
                               else Discrete
                                 (discrete_action
                                   [if (s ! 6 = 0 \<or> s ! 7 = 0) \<and> s ! 3 < 0
                                    then \<bar>s ! 3\<bar> - (if s ! 1 > 0.10 then s ! 1 / 7 else - 0.10)
                                    else 0,
                                    sin (s ! 4) * 2.5 + s ! 5 * 2.5 - (s ! 0 * 3 + s ! 2 * 4)]
                                   (s ! 1) (s ! 3))))))
         \<and> discrete_action
             [if (s ! 6 = 0 \<or> s ! 7 = 0) \<and> s ! 3 < 0
              then \<bar>s ! 3\<bar> - (if s ! 1 > 0.10 then s ! 1 / 7 else - 0.10) else 0,
              sin (s ! 4) * 2.5 + s ! 5 * 2.5 - (s ! 0 * 3 + s ! 2 * 4)]
             (s ! 1) (s ! 3) \<in> {0, 1, 2, 3}"
proof -
  let ?a = "[if (s ! 6 = 0 \<or> s ! 7 = 0) \<and> s ! 3 < 0
             then \<bar>s ! 3\<bar> - (if s ! 1 > 0.10 then s ! 1 / 7 else - 0.10) else 0,
             sin (s ! 4) * 2.5 + s ! 5 * 2.5 - (s ! 0 * 3 + s ! 2 * 4)]"
  have a: "raw_command s = Inr ?a" by (rule raw_command_8 [OF assms])
  have d: "discrete_action ?a (s ! 1) (s ! 3) \<in> {0, 1, 2, 3}" by (rule discrete_action_range)
  have r: "fst (get_action ext self s w) =
           (case convert_str_attr_to_float_env_config ext (env_config self) of
              Inl e \<Rightarrow> Inl e
            | Inr c1 \<Rightarrow>
                (case gym_make_raises ext c1 of
                   Some e \<Rightarrow> Inl e
                 | None \<Rightarrow>
                     (case env_config self ''continuous'' of
                        None \<Rightarrow> Inl (KeyError ''continuous'')
                      | Some m \<Rightarrow>
                          Inr (if truthy m then Continuous ?a
                               else Discrete (discrete_action ?a (s ! 1) (s ! 3))))))"
  proof (cases "convert_str_attr_to_float_env_config ext (env_config self)")
    case (Inl e)
    with get_action_convert_raises [OF a Inl, of w] show ?thesis by simp
  next
    case (Inr c1)
    show ?thesis
    proof (cases "gym_make_raises ext c1")
      case None
      with Inr get_action_returns [OF a Inr None, of w] show ?thesis
        by (simp split: option.splits)
    next
      case (Some e)
      with Inr get_action_make_env_raises [OF a Inr Some, of w] show ?thesis by simp
    qed
  qed
  from r d show ?thesis by (rule conjI)
qed

theorem get_action_outcome_witness:
  "length [1, 0.5, 2, - 1, 0, 3, 0, 1 :: real] = 8
   \<and> fst (get_action plain_externals continuous_agent [1, 0.5, 2, - 1, 0, 3, 0, 1] [])
       = Inr (Continuous [13 / 14, - 7 / 2])"
proof -
  have l: "length [1, 0.5, 2, - 1, 0, 3, 0, 1 :: real] = 8" by simp
  from get_action_outcome [OF l, of plain_externals continuous_agent "[]"]
  show ?thesis using l by (simp add: continuous_agent_mode plain_convert plain_gym_make)
qed

subsection \<open>Determinism\<close>

text \<open>
  With a helper that writes into a copy, the model of repeated calls is the model above,
  the agent unchanged.
\<close>

lemma get_action_ref_copy:
  "get_action_ref pf False gm self s w =
     (fst (get_action \<lparr>convert_str_attr_to_float_env_config = (\<lambda>c. Inr (convert_str_attr_to_float pf c)),
                       gym_make_raises = gm\<rparr> self s w),
      self,
      snd (get_action \<lparr>convert_str_attr_to_float_env_config = (\<lambda>c. Inr (convert_str_attr_to_float pf c)),
                       gym_make_raises = gm\<rparr> self s w))"
  by (simp add: get_action_ref_def get_action_def make_env_ref_def make_env_def Let_def
           split: sum.splits option.splits)

text \<open>The coercion leaves floats alone, so a second coercion changes nothing.\<close>

lemma convert_idem:
  "convert_str_attr_to_float pf (convert_str_attr_to_float pf d) = convert_str_attr_to_float pf d"
  by (rule ext) (simp add: convert_str_attr_to_float_def split: option.splits pyval.splits)

text \<open>
  The result of a call and the agent it leaves. With a helper that writes in place, line
  83 reads the dictionary as the helper left it.
\<close>

lemma get_action_ref_result:
  "fst (get_action_ref pf ip gm self s w) =
     (case raw_command s of
        Inl e \<Rightarrow> Inl e
      | Inr a \<Rightarrow>
          (case gm (convert_str_attr_to_float pf (env_config self)) of
             Some e \<Rightarrow> Inl e
           | None \<Rightarrow>
               (case (if ip then convert_str_attr_to_float pf (env_config self) else env_config self)
                       ''continuous'' of
                  None \<Rightarrow> Inl (KeyError ''continuous'')
                | Some c \<Rightarrow> Inr (if truthy c then Continuous a
                                 else Discrete (discrete_action a (s ! 1) (s ! 3))))))"
  by (simp add: get_action_ref_def make_env_ref_def Let_def split: sum.splits option.splits)

lemma get_action_ref_agent:
  "fst (snd (get_action_ref pf ip gm self s w)) =
     (case raw_command s of
        Inl e \<Rightarrow> self
      | Inr a \<Rightarrow> if ip then self\<lparr>env_config := convert_str_attr_to_float pf (env_config self)\<rparr> else self)"
  by (simp add: get_action_ref_def make_env_ref_def Let_def split: sum.splits option.splits)

text \<open>
  A helper that writes in place does change the agent: the string \<^verbatim>\<open>"0"\<close> under
  \<^verbatim>\<open>continuous\<close> is the float 0 after the first call.
\<close>

lemma get_action_ref_writes:
  "env_config (fst (snd (get_action_ref (\<lambda>t. if t = ''0'' then Some 0 else None) True (\<lambda>_. None)
       (init_agent [''continuous'' \<mapsto> PyStr ''0'']) [0, 1, 0, 0, 0, 0, 0, 0] []))) ''continuous''
     = Some (PyFloat 0)"
  by (simp add: get_action_ref_agent raw_command_8 convert_str_attr_to_float_def init_agent_def
        set_default_env_config_def setdefault_def)

text \<open>A call on the agent that a first call has left.\<close>

lemma get_action_ref_again:
  assumes "self1 = fst (snd (get_action_ref pf ip gm self s w))"
  shows "fst (get_action_ref pf ip gm self1 s w1) = fst (get_action_ref pf ip gm self s w)"
    and "fst (snd (get_action_ref pf ip gm self1 s w1)) = self1"
proof -
  let ?c = "convert_str_attr_to_float pf (env_config self)"
  show "fst (get_action_ref pf ip gm self1 s w1) = fst (get_action_ref pf ip gm self s w)"
  proof (cases "raw_command s")
    case (Inl e)
    then show ?thesis by (simp add: get_action_ref_result)
  next
    case (Inr a)
    show ?thesis
    proof (cases ip)
      case True
      with Inr assms have "env_config self1 = ?c"
        by (simp add: get_action_ref_agent)
      with Inr True show ?thesis
        by (simp add: get_action_ref_result convert_idem cong: option.case_cong)
    next
      case False
      with Inr assms have "self1 = self"
        by (simp add: get_action_ref_agent)
      then show ?thesis
        by (simp add: get_action_ref_result)
    qed
  qed
  show "fst (snd (get_action_ref pf ip gm self1 s w1)) = self1"
  proof (cases "raw_command s")
    case (Inl e)
    then show ?thesis by (simp add: get_action_ref_agent)
  next
    case (Inr a)
    show ?thesis
    proof (cases ip)
      case True
      with Inr assms have "self1 = self\<lparr>env_config := ?c\<rparr>"
        by (simp add: get_action_ref_agent)
      with Inr True show ?thesis
        by (simp add: get_action_ref_agent convert_idem)
    next
      case False
      with Inr show ?thesis
        by (simp add: get_action_ref_agent)
    qed
  qed
qed

text \<open>
  Claim C8. Two calls of \<^verbatim>\<open>get_action\<close> in a row with the same observation return
  the same result, an action or an error, and the second call leaves the agent as the
  first one did: what the first call may have written, into the agent's dictionary
  through the helper and into the trace of the simulator library, has no influence on
  the second. This holds whether the helper writes in place or not, because line 83
  reads the mode after line 79 has run the helper, and a coerced dictionary is coerced
  to itself.
\<close>

theorem second_call_agrees:
  "(case get_action_ref pf ip gm self s w of
      (r1, self1, w1) \<Rightarrow>
        (case get_action_ref pf ip gm self1 s w1 of
           (r2, self2, w2) \<Rightarrow> r2 = r1 \<and> self2 = self1))"
proof -
  obtain r1 self1 w1 where c1: "get_action_ref pf ip gm self s w = (r1, self1, w1)"
    by (cases "get_action_ref pf ip gm self s w") auto
  obtain r2 self2 w2 where c2: "get_action_ref pf ip gm self1 s w1 = (r2, self2, w2)"
    by (cases "get_action_ref pf ip gm self1 s w1") auto
  from c1 have s1: "self1 = fst (snd (get_action_ref pf ip gm self s w))" by simp
  from get_action_ref_again(1) [OF s1, of w1] c1 c2 have "r2 = r1" by simp
  moreover from get_action_ref_again(2) [OF s1, of w1] c2 have "self2 = self1" by simp
  ultimately show ?thesis by (simp add: c1 c2)
qed

subsection \<open>Consequences for the discrete action\<close>

text \<open>
  Claim C9. In discrete mode, if the action returned is 0 (no engine) then
  \<open>yv \<ge> - 0.1\<close>: the lander never coasts while sinking faster than 0.1.
\<close>

theorem noop_only_when_slow:
  assumes "fst (get_action ext self s w) = Inr (Discrete 0)"
  shows "s ! 3 \<ge> - 0.1"
proof -
  from get_action_Inr [OF assms] obtain a m where
    "Discrete 0 = (if truthy m then Continuous a
                   else Discrete (discrete_action a (s ! 1) (s ! 3)))"
    by blast
  then have "discrete_action a (s ! 1) (s ! 3) = 0"
    by (simp split: if_splits)
  then show ?thesis
    by (simp add: discrete_action_def split: if_splits)
qed

theorem noop_only_when_slow_witness:
  "fst (get_action plain_externals discrete_agent [0, 0.03, 0, 0, 0, 0, 0, 0] []) = Inr (Discrete 0)
   \<and> [0, 0.03, 0, 0, 0, 0, 0, 0 :: real] ! 3 \<ge> - 0.1"
proof -
  have r: "raw_command [0, 0.03, 0, 0, 0, 0, 0, 0] = Inr [0, 0]"
    by (simp add: raw_command_8)
  have h: "fst (get_action plain_externals discrete_agent [0, 0.03, 0, 0, 0, 0, 0, 0] [])
             = Inr (Discrete 0)"
    using get_action_returns [OF r plain_convert plain_gym_make, of discrete_agent "[]"]
    by (simp add: discrete_agent_mode discrete_action_def)
  from noop_only_when_slow [OF h] h show ?thesis by blast
qed

text \<open>
  Claim C10. In discrete mode, with both contact entries true (different from 0), the
  action is 2 (main engine) only if \<open>yv < - 0.1\<close>.
\<close>

theorem landed_main_only_when_sinking:
  assumes "length s = 8" and "s ! 6 \<noteq> 0" and "s ! 7 \<noteq> 0"
    and "fst (get_action ext self s w) = Inr (Discrete 2)"
  shows "s ! 3 < - 0.1"
proof -
  from get_action_Inr [OF assms(4)] obtain a m where
    a: "raw_command s = Inr a"
    and r: "Discrete 2 = (if truthy m then Continuous a
                          else Discrete (discrete_action a (s ! 1) (s ! 3)))"
    by blast
  from a raw_command_8 [OF assms(1)] assms(2) assms(3) have "a ! 0 = 0"
    by auto
  moreover from r have "discrete_action a (s ! 1) (s ! 3) = 2"
    by (simp split: if_splits)
  ultimately show ?thesis
    by (simp add: discrete_action_def split: if_splits)
qed

theorem landed_main_only_when_sinking_witness:
  "length [0, 0, 0, - 0.2, 0, 0, 1, 1 :: real] = 8
   \<and> [0, 0, 0, - 0.2, 0, 0, 1, 1 :: real] ! 6 \<noteq> 0
   \<and> [0, 0, 0, - 0.2, 0, 0, 1, 1 :: real] ! 7 \<noteq> 0
   \<and> fst (get_action plain_externals discrete_agent [0, 0, 0, - 0.2, 0, 0, 1, 1] [])
       = Inr (Discrete 2)
   \<and> [0, 0, 0, - 0.2, 0, 0, 1, 1 :: real] ! 3 < - 0.1"
proof -
  have l: "length [0, 0, 0, - 0.2, 0, 0, 1, 1 :: real] = 8" by simp
  have c6: "[0, 0, 0, - 0.2, 0, 0, 1, 1 :: real] ! 6 \<noteq> 0" by simp
  have c7: "[0, 0, 0, - 0.2, 0, 0, 1, 1 :: real] ! 7 \<noteq> 0" by simp
  have r: "raw_command [0, 0, 0, - 0.2, 0, 0, 1, 1] = Inr [0, 0]"
    by (simp add: raw_command_8)
  have h: "fst (get_action plain_externals discrete_agent [0, 0, 0, - 0.2, 0, 0, 1, 1] [])
             = Inr (Discrete 2)"
    using get_action_returns [OF r plain_convert plain_gym_make, of discrete_agent "[]"]
    by (simp add: discrete_agent_mode discrete_action_def)
  from landed_main_only_when_sinking [OF l c6 c7 h] l c6 c7 h show ?thesis by blast
qed

end
